theory Spec2Isabelle
  imports Main
begin

section \<open>send\_cli\_command\_to\_nfv\_inventory.py: data model\<close>

text \<open>
  The script reads a list of hosts and a credentials dictionary, runs one command on every
  host over SSH from a pool of worker threads, and appends the collected output to
  \<^verbatim>\<open>cli_response_text.txt\<close>.

  Everything outside the script (the network, the SSH library, the file system, the JSON
  and string library) is a parameter of the model: what a library call answers is read from a
  \<open>task_world\<close> (one per call of \<open>send_command\<close>), a \<open>pylib\<close> and a file map, and
  every library call the code makes is recorded as an \<open>event\<close>, in program order.
\<close>

type_synonym host = string
type_synonym line = string

text \<open>
  An exception object: whether it is a \<^verbatim>\<open>socket.timeout\<close> (the only class the script
  tells apart) and its \<^verbatim>\<open>str(e)\<close>. The outcomes range over subclasses of
  \<^verbatim>\<open>Exception\<close>, which is what network, SSH and dictionary failures raise.
\<close>

datatype exn = SocketTimeout string | OtherException string

fun exn_text :: "exn \<Rightarrow> string" where
  "exn_text (SocketTimeout s) = s"
| "exn_text (OtherException s) = s"

text \<open>\<^verbatim>\<open>d[k]\<close> on a missing key raises \<^verbatim>\<open>KeyError(k)\<close>, whose text is the quoted key.\<close>

definition key_error :: "string \<Rightarrow> exn" where
  "key_error k = OtherException ([CHR 0x27] @ k @ [CHR 0x27])"

text \<open>The credentials dictionary loaded from JSON, as an association list.\<close>

type_synonym credentials = "(string \<times> string) list"

definition dict_get :: "('k \<times> 'v) list \<Rightarrow> 'k \<Rightarrow> 'v option" where
  "dict_get d k = map_of d k"

text \<open>The library calls the script makes, as observable events.\<close>

datatype event =
    Print string                    \<comment> \<open>\<^verbatim>\<open>print(s)\<close>\<close>
  | SocketOpen                      \<comment> \<open>\<^verbatim>\<open>socket.socket(AF_INET, SOCK_STREAM)\<close>\<close>
  | SocketConnect host nat          \<comment> \<open>\<^verbatim>\<open>sock.connect_ex((host, port))\<close>\<close>
  | SshClientNew                    \<comment> \<open>\<^verbatim>\<open>SSHClient()\<close>\<close>
  | SshSetPolicy                    \<comment> \<open>\<^verbatim>\<open>ssh.set_missing_host_key_policy(AutoAddPolicy())\<close>\<close>
  | SshConnect host string string   \<comment> \<open>\<^verbatim>\<open>ssh.connect(host, username=u, password=p)\<close>\<close>
  | SshExec string                  \<comment> \<open>\<^verbatim>\<open>ssh.exec_command(cli_command)\<close>\<close>
  | ReadStdout                      \<comment> \<open>\<^verbatim>\<open>stdout.readlines()\<close>\<close>
  | ReadStderr                      \<comment> \<open>reading the \<^verbatim>\<open>stderr\<close> stream\<close>
  | SshClose                        \<comment> \<open>\<^verbatim>\<open>ssh.close()\<close>, run by leaving \<^verbatim>\<open>with ssh:\<close>\<close>

fun is_ssh_event :: "event \<Rightarrow> bool" where
  "is_ssh_event SshClientNew = True"
| "is_ssh_event SshSetPolicy = True"
| "is_ssh_event (SshConnect h u p) = True"
| "is_ssh_event (SshExec c) = True"
| "is_ssh_event ReadStdout = True"
| "is_ssh_event ReadStderr = True"
| "is_ssh_event SshClose = True"
| "is_ssh_event e = False"

text \<open>
  The three streams \<^verbatim>\<open>exec_command\<close> returns; the script reads \<^verbatim>\<open>stdout\<close> only.
  \<open>ch_stdout\<close> is what \<^verbatim>\<open>stdout.readlines()\<close> answers (the lines, each with its
  line terminator as the remote side sent it, or an exception), \<open>ch_stderr\<close> what the
  command wrote to standard error.
\<close>

record channel =
  ch_stdout :: "exn + line list"
  ch_stderr :: "line list"

text \<open>What the outside world answers during one call of \<open>send_command\<close>.\<close>

record task_world =
  tw_connect_ex :: "exn + int"      \<comment> \<open>\<^verbatim>\<open>connect_ex\<close>: an error code (0 is success), or it raises\<close>
  tw_ssh_connect :: "exn option"    \<comment> \<open>\<^verbatim>\<open>ssh.connect\<close>: returns, or raises\<close>
  tw_exec :: "exn + channel"        \<comment> \<open>\<^verbatim>\<open>ssh.exec_command\<close>: the streams, or it raises\<close>

section \<open>check\_port\<close>

text \<open>
  \<^verbatim>\<open>
  def check_port(host, port):
      sock = socket.socket(socket.AF_INET, socket.SOCK_STREAM)
      result = sock.connect_ex((host, port))
      return result == 0
  \<close>
  A function of the script returns its result (\<open>Inl\<close> an exception that leaves it) and the
  events it caused. \<^verbatim>\<open>connect_ex\<close> answers an error code for a failed connection and
  raises for other problems, such as a host name that does not resolve. The script makes
  no call on the socket after \<^verbatim>\<open>connect_ex\<close>; when the runtime releases the socket
  object is not part of this model.
\<close>

definition check_port :: "host \<Rightarrow> nat \<Rightarrow> task_world \<Rightarrow> (exn + bool) \<times> event list" where
  "check_port host port w =
     (case tw_connect_ex w of
        Inl e \<Rightarrow> (Inl e, [SocketOpen, SocketConnect host port])
      | Inr result \<Rightarrow> (Inr (result = 0), [SocketOpen, SocketConnect host port]))"

section \<open>send\_command\<close>

definition port_closed_msg :: "host \<Rightarrow> string" where
  "port_closed_msg host = ''The ESXi host '' @ host @ '' is not listening on port 22.''"

definition timeout_msg :: "host \<Rightarrow> string" where
  "timeout_msg host = ''Socket timeout when trying to connect to '' @ host @ ''.''"

definition unable_msg :: "host \<Rightarrow> exn \<Rightarrow> string" where
  "unable_msg host e =
     ''Unable to connect to '' @ host @
     '' with provided credentials. The host may have non-standard credentials. Error: '' @
     exn_text e"

text \<open>
  The body of \<^verbatim>\<open>with ssh:\<close>
  \<^verbatim>\<open>
  ssh.connect(host, username=credentials["username"], password=credentials["password"])
  stdin, stdout, stderr = ssh.exec_command(cli_command)
  output = stdout.readlines()
  return output
  \<close>
  The two dictionary lookups are evaluated, left to right, before \<^verbatim>\<open>ssh.connect\<close> is
  called.
\<close>

definition ssh_session ::
  "host \<Rightarrow> credentials \<Rightarrow> string \<Rightarrow> task_world \<Rightarrow> (exn + line list) \<times> event list" where
  "ssh_session host creds cli_command w =
     (case dict_get creds ''username'' of
        None \<Rightarrow> (Inl (key_error ''username''), [])
      | Some u \<Rightarrow>
     (case dict_get creds ''password'' of
        None \<Rightarrow> (Inl (key_error ''password''), [])
      | Some p \<Rightarrow>
     (case tw_ssh_connect w of
        Some e \<Rightarrow> (Inl e, [SshConnect host u p])
      | None \<Rightarrow>
     (case tw_exec w of
        Inl e \<Rightarrow> (Inl e, [SshConnect host u p, SshExec cli_command])
      | Inr ch \<Rightarrow>
     (case ch_stdout ch of
        Inl e \<Rightarrow> (Inl e, [SshConnect host u p, SshExec cli_command, ReadStdout])
      | Inr output \<Rightarrow> (Inr output, [SshConnect host u p, SshExec cli_command, ReadStdout]))))))"

text \<open>
  \<^verbatim>\<open>
  def send_command(host, credentials, cli_command):
      if not check_port(host, 22):
          print(f"The ESXi host {host} is not listening on port 22.")
          return []
      ssh = SSHClient()
      ssh.set_missing_host_key_policy(AutoAddPolicy())
      try:
          with ssh:
              ...
      except socket.timeout:
          print(f"Socket timeout when trying to connect to {host}.")
      except Exception as e:
          print(f"Unable to connect to {host} with provided credentials. ... Error: {e}")
      return []
  \<close>
  \<open>check_port\<close> is called outside the \<^verbatim>\<open>try\<close>: an exception it raises leaves
  \<open>send_command\<close>. Leaving \<^verbatim>\<open>with ssh:\<close> closes the client on every path.
\<close>

definition send_command ::
  "host \<Rightarrow> credentials \<Rightarrow> string \<Rightarrow> task_world \<Rightarrow> (exn + line list) \<times> event list" where
  "send_command host creds cli_command w =
     (case check_port host 22 w of
        (Inl e, evs) \<Rightarrow> (Inl e, evs)
      | (Inr False, evs) \<Rightarrow> (Inr [], evs @ [Print (port_closed_msg host)])
      | (Inr True, evs) \<Rightarrow>
          (case ssh_session host creds cli_command w of
             (Inr output, evs') \<Rightarrow>
               (Inr output, evs @ [SshClientNew, SshSetPolicy] @ evs' @ [SshClose])
           | (Inl (SocketTimeout s), evs') \<Rightarrow>
               (Inr [], evs @ [SshClientNew, SshSetPolicy] @ evs' @ [SshClose]
                          @ [Print (timeout_msg host)])
           | (Inl (OtherException s), evs') \<Rightarrow>
               (Inr [], evs @ [SshClientNew, SshSetPolicy] @ evs' @ [SshClose]
                          @ [Print (unable_msg host (OtherException s))])))"

section \<open>The thread pool and the futures dictionary\<close>

text \<open>
  \<^verbatim>\<open>executor.submit(send_command, host, credentials, cli_command)\<close> stores the call
  and returns a new future object. A future is identified by its position in the pool; the
  stored call is a function of what the network answers while it runs.
\<close>

type_synonym future = nat
type_synonym task = "task_world \<Rightarrow> (exn + line list) \<times> event list"

definition submit :: "task list \<Rightarrow> task \<Rightarrow> future \<times> task list" where
  "submit pool t = (length pool, pool @ [t])"

text \<open>
  \<^verbatim>\<open>d[k] = v\<close> on a Python dictionary: an existing key keeps its position and takes the new
  value, a new key goes to the end. Iteration is in that order.
\<close>

fun dict_set :: "('k \<times> 'v) list \<Rightarrow> 'k \<Rightarrow> 'v \<Rightarrow> ('k \<times> 'v) list" where
  "dict_set [] k v = [(k, v)]"
| "dict_set ((k', v') # d) k v =
     (if k' = k then (k, v) # d else (k', v') # dict_set d k v)"

text \<open>
  \<^verbatim>\<open>futures = {executor.submit(send_command, host, credentials, cli_command): host
             for host in hosts}\<close>
\<close>

fun submit_hosts ::
  "credentials \<Rightarrow> string \<Rightarrow> task list \<Rightarrow> (future \<times> host) list \<Rightarrow> host list
     \<Rightarrow> task list \<times> (future \<times> host) list" where
  "submit_hosts creds cli_command pool futures [] = (pool, futures)"
| "submit_hosts creds cli_command pool futures (host # hosts) =
     (case submit pool (send_command host creds cli_command) of
        (fut, pool') \<Rightarrow>
          submit_hosts creds cli_command pool' (dict_set futures fut host) hosts)"

text \<open>
  The worker threads run the submitted calls; \<open>order\<close> lists the futures in the order in
  which their calls finish, and \<open>worlds fut\<close> is what the network answers to the call of
  future \<open>fut\<close>. The result is the list of finished calls, in completion order, each with
  its outcome and its events.
\<close>

type_synonym finished = "(future \<times> ((exn + line list) \<times> event list)) list"

definition run_pool :: "(future \<Rightarrow> task_world) \<Rightarrow> future list \<Rightarrow> task list \<Rightarrow> finished" where
  "run_pool worlds order pool =
     map (\<lambda>fut. (fut, (pool ! fut) (worlds fut))) (filter (\<lambda>fut. fut < length pool) order)"

text \<open>
  \<^verbatim>\<open>future.result()\<close> waits for the call to finish, then returns its value or raises its
  exception; \<open>None\<close> is a future whose call never finishes.
\<close>

definition future_result :: "finished \<Rightarrow> future \<Rightarrow> (exn + line list) option" where
  "future_result fin fut = map_option fst (map_of fin fut)"

section \<open>main\<close>

record args =
  inventory_file :: string
  command :: string
  credentials_file :: string

text \<open>
  Library functions the script calls on file contents: \<^verbatim>\<open>file.readlines()\<close>,
  \<^verbatim>\<open>str.strip()\<close> and \<^verbatim>\<open>json.load\<close>.
\<close>

record pylib =
  str_readlines :: "string \<Rightarrow> line list"
  str_strip :: "string \<Rightarrow> string"
  json_load :: "string \<Rightarrow> exn + credentials"

text \<open>How the process ends.\<close>

datatype status =
    Exit nat          \<comment> \<open>\<^verbatim>\<open>sys.exit(n)\<close>; returning from \<open>main\<close> is \<open>Exit 0\<close>\<close>
  | Uncaught exn      \<comment> \<open>an exception nobody catches\<close>
  | Blocked           \<comment> \<open>waiting for a future whose call never finishes\<close>

definition file_missing_msg :: "string \<Rightarrow> string" where
  "file_missing_msg file_name = ''The file '' @ file_name @ '' does not exist.''"

text \<open>
  \<^verbatim>\<open>
  def load_credentials(file_name="credentials.json"):
      try:
          with open(file_name, "r") as file:
              return json.load(file)
      except FileNotFoundError:
          print(f"The file {file_name} does not exist.")
          sys.exit(1)
  \<close>
\<close>

definition load_credentials ::
  "pylib \<Rightarrow> (string \<rightharpoonup> string) \<Rightarrow> string \<Rightarrow> (status + credentials) \<times> string list" where
  "load_credentials lib files file_name =
     (case files file_name of
        None \<Rightarrow> (Inl (Exit 1), [file_missing_msg file_name])
      | Some text \<Rightarrow>
          (case json_load lib text of
             Inl e \<Rightarrow> (Inl (Uncaught e), [])
           | Inr creds \<Rightarrow> (Inr creds, [])))"

definition command_echo :: "string \<Rightarrow> string" where
  "command_echo cli_command = ''Command run: '' @ cli_command @ ''\<newline>''"

definition output_header :: "host \<Rightarrow> string" where
  "output_header host = ''Output from '' @ host @ '':\<newline>''"

text \<open>
  \<^verbatim>\<open>
  for future in futures:
      changes = future.result()
      if changes:
          outfile.write(f'Output from {futures[future]}:\n')
          outfile.writelines(changes)
          outfile.write('\n')
  \<close>
  \<open>out\<close> is the list of strings written to \<^verbatim>\<open>outfile\<close> so far;
  \<^verbatim>\<open>writelines\<close> writes each element of the list as it is. The loop runs over the keys
  \<open>todo\<close> of the dictionary \<open>futures\<close>, so the lookup \<^verbatim>\<open>futures[future]\<close> finds
  its key (lemma \<open>dict_get_futures\<close>); its \<^verbatim>\<open>KeyError\<close> branch only makes the function
  total. A list is true in \<^verbatim>\<open>if changes:\<close> when it is not empty.
\<close>

fun write_results ::
  "finished \<Rightarrow> (future \<times> host) list \<Rightarrow> future list \<Rightarrow> string list \<Rightarrow> status \<times> string list" where
  "write_results fin futures [] out = (Exit 0, out)"
| "write_results fin futures (fut # todo) out =
     (case future_result fin fut of
        None \<Rightarrow> (Blocked, out)
      | Some (Inl e) \<Rightarrow> (Uncaught e, out)
      | Some (Inr changes) \<Rightarrow>
          (if changes \<noteq> [] then
             (case dict_get futures fut of
                None \<Rightarrow> (Uncaught (key_error ''future''), out)
              | Some host \<Rightarrow>
                  write_results fin futures todo
                    (out @ [output_header host] @ changes @ [''\<newline>'']))
           else write_results fin futures todo out))"

definition report_file :: string where
  "report_file = ''cli_response_text.txt''"

text \<open>
  What one run leaves behind: how the process ended, what the main thread printed, the
  finished calls of the pool with their events, the strings written to the report during
  this run, and the files.
\<close>

record run =
  run_status :: status
  run_printed :: "string list"
  run_finished :: finished
  run_written :: "string list"
  run_files :: "string \<rightharpoonup> string"

text \<open>
  \<^verbatim>\<open>with open("cli_response_text.txt", "a") as outfile\<close>: the file is created when it does
  not exist, and what is written goes after what it holds.
\<close>

definition append_file :: "(string \<rightharpoonup> string) \<Rightarrow> string \<Rightarrow> string list \<Rightarrow> (string \<rightharpoonup> string)" where
  "append_file files name written =
     files(name \<mapsto> (case files name of None \<Rightarrow> [] | Some old \<Rightarrow> old) @ concat written)"

text \<open>
  \<^verbatim>\<open>
  def main():
      ... args = parser.parse_args() ...
      try:
          with open(inventory_file, "r") as file:
              hosts = [line.strip() for line in file.readlines()]
      except FileNotFoundError:
          print(f"The file {inventory_file} does not exist.")
          sys.exit(1)
      credentials = load_credentials(credentials_file)
      with open("cli_response_text.txt", "a") as outfile:
          outfile.write(f"Command run: {cli_command}\n")
          with ThreadPoolExecutor(max_workers=10) as executor:
              futures = {...}
              for future in futures:
                  ...
  \<close>
  The model starts from the parsed arguments. Leaving the two \<^verbatim>\<open>with\<close> blocks waits for
  the pool and closes the report, also when an exception leaves the loop: the strings
  written up to there are in the file. (When the loop waits for ever, \<open>run_files\<close> shows
  them too, although the file was never closed.)
\<close>

definition main ::
  "pylib \<Rightarrow> args \<Rightarrow> (string \<rightharpoonup> string) \<Rightarrow> (future \<Rightarrow> task_world) \<Rightarrow> future list \<Rightarrow> run" where
  "main lib a files worlds order =
     (case files (inventory_file a) of
        None \<Rightarrow>
          \<lparr>run_status = Exit 1, run_printed = [file_missing_msg (inventory_file a)],
           run_finished = [], run_written = [], run_files = files\<rparr>
      | Some text \<Rightarrow>
          (let hosts = map (str_strip lib) (str_readlines lib text) in
           case load_credentials lib files (credentials_file a) of
             (Inl st, printed) \<Rightarrow>
               \<lparr>run_status = st, run_printed = printed,
                run_finished = [], run_written = [], run_files = files\<rparr>
           | (Inr creds, printed) \<Rightarrow>
               (case submit_hosts creds (command a) [] [] hosts of
                  (pool, futures) \<Rightarrow>
                    (let fin = run_pool worlds order pool in
                     case write_results fin futures (map fst futures) [command_echo (command a)] of
                       (st, written) \<Rightarrow>
                         \<lparr>run_status = st, run_printed = printed,
                          run_finished = fin, run_written = written,
                          run_files = append_file files report_file written\<rparr>))))"

section \<open>The report as the specification words it\<close>

text \<open>
  The report body in closed form: for each host, in list order, whose result is not empty,
  a header naming the host, the output lines as they are, and the separator
  \<open>''\<newline>''\<close>.
\<close>

definition report_body :: "(host \<times> line list) list \<Rightarrow> string list" where
  "report_body rs =
     concat (map (\<lambda>(h, ls). output_header h # ls @ [''\<newline>''])
                 (filter (\<lambda>(h, ls). ls \<noteq> []) rs))"

text \<open>
  The lines of a text file: the text is cut after each line feed, and the lines are given
  without it.
\<close>

fun file_lines :: "string \<Rightarrow> line list" where
  "file_lines [] = []"
| "file_lines (c # cs) =
     (if c = CHR 0x0A then [] # file_lines cs
      else (case file_lines cs of [] \<Rightarrow> [[c]] | l # ls \<Rightarrow> (c # l) # ls))"

text \<open>
  The lines of one run's report as the specification lists them: the command echo, then
  for each host with a non-empty result the header, the output lines and one empty line.
\<close>

definition report_lines :: "string \<Rightarrow> (host \<times> line list) list \<Rightarrow> line list" where
  "report_lines cli_command rs =
     (''Command run: '' @ cli_command) #
     concat (map (\<lambda>(h, ls). (''Output from '' @ h @ '':'') # ls @ [''''])
                 (filter (\<lambda>(h, ls). ls \<noteq> []) rs))"

text \<open>
  \<open>order\<close> is a completion order of \<open>n\<close> submitted calls: each of the futures
  \<open>0, ..., n - 1\<close> finishes, once.
\<close>

definition schedule :: "future list \<Rightarrow> nat \<Rightarrow> bool" where
  "schedule order n = (distinct order \<and> set order = {0..<n})"

section \<open>Example inputs\<close>

text \<open>
  One instance of the library parameters on ASCII text (lines split after each line feed,
  white space dropped at both ends, a JSON loader that answers a fixed dictionary), and a
  few answers of the network. They instantiate the theorems below at concrete runs.
\<close>

fun lines_keepends :: "string \<Rightarrow> line list" where
  "lines_keepends [] = []"
| "lines_keepends (c # cs) =
     (if c = CHR 0x0A then [c] # lines_keepends cs
      else (case lines_keepends cs of [] \<Rightarrow> [[c]] | l # ls \<Rightarrow> (c # l) # ls))"

definition ascii_space :: "char \<Rightarrow> bool" where
  "ascii_space c = (c \<in> set [CHR 0x20, CHR 0x09, CHR 0x0A, CHR 0x0B, CHR 0x0C, CHR 0x0D])"

definition strip_ascii :: "string \<Rightarrow> string" where
  "strip_ascii s = rev (dropWhile ascii_space (rev (dropWhile ascii_space s)))"

definition example_lib :: "credentials \<Rightarrow> pylib" where
  "example_lib creds =
     \<lparr>str_readlines = lines_keepends, str_strip = strip_ascii, json_load = (\<lambda>text. Inr creds)\<rparr>"

definition example_args :: args where
  "example_args =
     \<lparr>inventory_file = ''hosts.txt'', command = ''net-stats -l'',
      credentials_file = ''credentials.json''\<rparr>"

definition example_creds :: credentials where
  "example_creds = [(''username'', ''root''), (''password'', ''secret'')]"

definition example_files :: "string \<Rightarrow> (string \<rightharpoonup> string)" where
  "example_files inventory = [''hosts.txt'' \<mapsto> inventory, ''credentials.json'' \<mapsto> ''{}'']"

text \<open>A host that accepts the connection and the login and answers \<open>out\<close> on standard output.\<close>

definition answers :: "line list \<Rightarrow> task_world" where
  "answers out =
     \<lparr>tw_connect_ex = Inr 0, tw_ssh_connect = None,
      tw_exec = Inr \<lparr>ch_stdout = Inr out, ch_stderr = []\<rparr>\<rparr>"

text \<open>A host that refuses the connection to port 22 (\<^verbatim>\<open>ECONNREFUSED\<close>).\<close>

definition refuses :: task_world where
  "refuses =
     \<lparr>tw_connect_ex = Inr 111, tw_ssh_connect = Some (OtherException ''unreachable''),
      tw_exec = Inl (OtherException ''unreachable'')\<rparr>"

text \<open>A host whose port is open and whose SSH connection times out, or rejects the login.\<close>

definition times_out :: task_world where
  "times_out =
     \<lparr>tw_connect_ex = Inr 0, tw_ssh_connect = Some (SocketTimeout ''timed out''),
      tw_exec = Inl (OtherException ''not connected'')\<rparr>"

definition rejects :: task_world where
  "rejects =
     \<lparr>tw_connect_ex = Inr 0, tw_ssh_connect = Some (OtherException ''Authentication failed.''),
      tw_exec = Inl (OtherException ''not connected'')\<rparr>"

text \<open>
  A host whose name does not resolve: \<^verbatim>\<open>connect_ex\<close> raises \<^verbatim>\<open>socket.gaierror\<close>.
\<close>

definition unresolvable :: task_world where
  "unresolvable =
     \<lparr>tw_connect_ex = Inl (OtherException ''[Errno -2] Name or service not known''),
      tw_ssh_connect = Some (OtherException ''[Errno -2] Name or service not known''),
      tw_exec = Inl (OtherException ''not connected'')\<rparr>"

text \<open>Three calls: the first and the third answer one line, the second does not resolve.\<close>

definition middle_unresolvable :: "future \<Rightarrow> task_world" where
  "middle_unresolvable fut =
     (if fut = 0 then answers [''x\<newline>''] else if fut = 1 then unresolvable
      else answers [''y\<newline>''])"

text \<open>A host that answers \<open>out\<close> on standard output and \<open>err\<close> on standard error.\<close>

definition answers_with_stderr :: "line list \<Rightarrow> line list \<Rightarrow> task_world" where
  "answers_with_stderr out err =
     \<lparr>tw_connect_ex = Inr 0, tw_ssh_connect = None,
      tw_exec = Inr \<lparr>ch_stdout = Inr out, ch_stderr = err\<rparr>\<rparr>"

text \<open>
  Three calls: the first answers one line, the second nothing, the third two lines.
\<close>

definition abc_worlds :: "line \<Rightarrow> line \<Rightarrow> line \<Rightarrow> future \<Rightarrow> task_world" where
  "abc_worlds x y z fut =
     (if fut = 0 then answers [x] else if fut = 1 then answers [] else answers [y, z])"


section \<open>Properties of the pool and of the report loop\<close>

lemma dict_set_fresh: "k \<notin> fst ` set d \<Longrightarrow> dict_set d k v = d @ [(k, v)]"
  by (induction d) auto

lemma submit_hosts_eq:
  "fst ` set futures \<subseteq> {..<length pool} \<Longrightarrow>
   submit_hosts creds cmd pool futures hosts =
     (pool @ map (\<lambda>h. send_command h creds cmd) hosts,
      futures @ enumerate (length pool) hosts)"
proof (induction hosts arbitrary: pool futures)
  case Nil
  then show ?case by simp
next
  case (Cons host hosts)
  have fresh: "length pool \<notin> fst ` set futures"
    using Cons.prems by auto
  have keys: "fst ` set (futures @ [(length pool, host)])
                \<subseteq> {..<length (pool @ [send_command host creds cmd])}"
    using Cons.prems by auto
  show ?case
    using Cons.IH [OF keys]
    by (simp add: submit_def dict_set_fresh [OF fresh])
qed

lemma submit_hosts_start:
  "submit_hosts creds cmd [] [] hosts =
     (map (\<lambda>h. send_command h creds cmd) hosts, zip [0..<length hosts] hosts)"
  using submit_hosts_eq [of "[]" "[]" creds cmd hosts] by (simp add: enumerate_eq_zip)

lemma map_of_tabulate:
  "map_of (map (\<lambda>k. (k, f k)) ks) k = (if k \<in> set ks then Some (f k) else None)"
  by (induction ks) auto

lemma future_result_run_pool:
  "fut < length pool \<Longrightarrow> fut \<in> set order \<Longrightarrow>
   future_result (run_pool worlds order pool) fut = Some (fst ((pool ! fut) (worlds fut)))"
  by (simp add: future_result_def run_pool_def map_of_tabulate)

lemma dict_get_futures:
  "i < length hosts \<Longrightarrow> dict_get (zip [0..<length hosts] hosts) i = Some (hosts ! i)"
  using map_of_zip_nth [of "[0..<length hosts]" hosts i]
  by (simp add: dict_get_def)

lemma report_body_Cons:
  "report_body ((h, ls) # rs) =
     (if ls \<noteq> [] then output_header h # ls @ [''\<newline>''] else []) @ report_body rs"
  by (simp add: report_body_def)

lemma report_body_Nil: "report_body [] = []"
  by (simp add: report_body_def)

lemma write_results_all:
  "(\<And>f. f \<in> set todo \<Longrightarrow> future_result fin f = Some (Inr (res f))) \<Longrightarrow>
   (\<And>f. f \<in> set todo \<Longrightarrow> dict_get futures f = Some (hst f)) \<Longrightarrow>
   write_results fin futures todo out =
     (Exit 0, out @ report_body (map (\<lambda>f. (hst f, res f)) todo))"
proof (induction todo arbitrary: out)
  case Nil
  then show ?case by (simp add: report_body_Nil)
next
  case (Cons f todo)
  have r: "future_result fin f = Some (Inr (res f))" and h: "dict_get futures f = Some (hst f)"
    using Cons.prems by simp_all
  have rest: "write_results fin futures todo out' =
     (Exit 0, out' @ report_body (map (\<lambda>f. (hst f, res f)) todo))" for out'
    using Cons.IH Cons.prems by simp
  show ?case
    by (simp add: r h rest report_body_Cons)
qed

lemma zip_as_map_nth:
  "length ys = length xs \<Longrightarrow> map (\<lambda>i. (xs ! i, ys ! i)) [0..<length xs] = zip xs ys"
  by (rule nth_equalityI) simp_all


lemma main_dispatch:
  assumes "files (inventory_file a) = Some text"
    and "files (credentials_file a) = Some ctext"
    and "json_load lib ctext = Inr creds"
    and "hosts = map (str_strip lib) (str_readlines lib text)"
    and "fin = run_pool worlds order (map (\<lambda>h. send_command h creds (command a)) hosts)"
    and "write_results fin (zip [0..<length hosts] hosts) [0..<length hosts]
           [command_echo (command a)] = (st, written)"
  shows "main lib a files worlds order =
           \<lparr>run_status = st, run_printed = [], run_finished = fin, run_written = written,
            run_files = append_file files report_file written\<rparr>"
  using assms
  by (simp add: main_def load_credentials_def submit_hosts_start Let_def)

lemma future_result_main:
  assumes "schedule order (length hosts)" and "i < length hosts"
  shows "future_result (run_pool worlds order (map (\<lambda>h. send_command h creds cmd) hosts)) i =
           Some (fst (send_command (hosts ! i) creds cmd (worlds i)))"
  using assms future_result_run_pool [of i "map (\<lambda>h. send_command h creds cmd) hosts" order worlds]
  by (simp add: schedule_def)

lemma main_written:
  assumes inv: "files (inventory_file a) = Some text"
    and cf: "files (credentials_file a) = Some ctext"
    and js: "json_load lib ctext = Inr creds"
    and hosts: "hosts = map (str_strip lib) (str_readlines lib text)"
    and sched: "schedule order (length hosts)"
    and len: "length results = length hosts"
    and res: "\<And>i. i < length hosts \<Longrightarrow>
                fst (send_command (hosts ! i) creds (command a) (worlds i)) = Inr (results ! i)"
  shows "main lib a files worlds order =
           \<lparr>run_status = Exit 0, run_printed = [],
            run_finished = run_pool worlds order (map (\<lambda>h. send_command h creds (command a)) hosts),
            run_written = command_echo (command a) # report_body (zip hosts results),
            run_files = append_file files report_file
                          (command_echo (command a) # report_body (zip hosts results))\<rparr>"
proof -
  let ?fin = "run_pool worlds order (map (\<lambda>h. send_command h creds (command a)) hosts)"
  have "write_results ?fin (zip [0..<length hosts] hosts) [0..<length hosts]
          [command_echo (command a)] =
        (Exit 0, [command_echo (command a)] @
                 report_body (map (\<lambda>i. (hosts ! i, results ! i)) [0..<length hosts]))"
    by (rule write_results_all)
       (simp_all add: future_result_main [OF sched] res dict_get_futures)
  then have "write_results ?fin (zip [0..<length hosts] hosts) [0..<length hosts]
          [command_echo (command a)] =
        (Exit 0, command_echo (command a) # report_body (zip hosts results))"
    by (simp add: zip_as_map_nth [OF len])
  from main_dispatch [OF inv cf js hosts refl this] show ?thesis .
qed

lemma run_pool_schedule:
  assumes "schedule order (length hosts)"
  shows "run_pool worlds order (map (\<lambda>h. send_command h creds cmd) hosts) =
           map (\<lambda>fut. (fut, send_command (hosts ! fut) creds cmd (worlds fut))) order"
proof -
  have "\<And>fut. fut \<in> set order \<Longrightarrow> fut < length hosts"
    using assms by (simp add: schedule_def)
  then show ?thesis
    by (simp add: run_pool_def)
qed

lemma write_results_cong:
  "(\<And>f. f \<in> set todo \<Longrightarrow> future_result fin f = future_result fin' f) \<Longrightarrow>
   write_results fin futures todo out = write_results fin' futures todo out"
proof (induction todo arbitrary: out)
  case Nil
  then show ?case by simp
next
  case (Cons f todo)
  have same: "future_result fin f = future_result fin' f"
    using Cons.prems by simp
  have rest: "write_results fin futures todo out' = write_results fin' futures todo out'" for out'
    using Cons.IH Cons.prems by simp
  show ?case
    by (simp add: same rest split: option.splits sum.splits)
qed

lemma write_results_extends:
  "\<exists>rest. snd (write_results fin futures todo out) = out @ rest"
proof (induction todo arbitrary: out)
  case Nil
  show ?case by simp
next
  case (Cons f todo)
  show ?case
  proof (cases "future_result fin f")
    case None
    then show ?thesis by simp
  next
    case (Some r)
    note res = this
    show ?thesis
    proof (cases r)
      case (Inl e)
      with res show ?thesis by simp
    next
      case (Inr changes)
      note r = this
      show ?thesis
      proof (cases "changes = []")
        case True
        with res r Cons.IH [of out] show ?thesis by simp
      next
        case False
        note ne = this
        show ?thesis
        proof (cases "dict_get futures f")
          case None
          with res r ne show ?thesis by simp
        next
          case (Some host)
          obtain rest where
            "snd (write_results fin futures todo
                    (out @ [output_header host] @ changes @ [''\<newline>''])) =
             (out @ [output_header host] @ changes @ [''\<newline>'']) @ rest"
            using Cons.IH by blast
          with res r ne Some show ?thesis by simp
        qed
      qed
    qed
  qed
qed

lemma append_file_other: "name \<noteq> report \<Longrightarrow> append_file files report written name = files name"
  by (simp add: append_file_def)

lemma append_file_report:
  "append_file files report written report =
     Some ((case files report of None \<Rightarrow> [] | Some old \<Rightarrow> old) @ concat written)"
  by (simp add: append_file_def)

lemma report_body_all_empty: "(\<And>h ls. (h, ls) \<in> set rs \<Longrightarrow> ls = []) \<Longrightarrow> report_body rs = []"
  by (auto simp: report_body_def filter_empty_conv)

section \<open>The report as text\<close>

lemma file_lines_line:
  "CHR 0x0A \<notin> set l \<Longrightarrow> file_lines (l @ CHR 0x0A # rest) = l # file_lines rest"
  by (induction l) auto

lemma file_lines_terminated:
  "(\<And>l. l \<in> set ls \<Longrightarrow> CHR 0x0A \<notin> set l) \<Longrightarrow>
   file_lines (concat (map (\<lambda>l. l @ ''\<newline>'') ls)) = ls"
  by (induction ls) (simp_all add: file_lines_line)

lemma report_body_terminated:
  "report_body (map (\<lambda>(h, ls). (h, map (\<lambda>l. l @ ''\<newline>'') ls)) rs) =
   map (\<lambda>l. l @ ''\<newline>'')
     (concat (map (\<lambda>(h, ls). (''Output from '' @ h @ '':'') # ls @ [''''])
                  (filter (\<lambda>(h, ls). ls \<noteq> []) rs)))"
  by (induction rs) (auto simp: report_body_Nil report_body_Cons output_header_def)

lemma written_terminated:
  "command_echo cmd # report_body (map (\<lambda>(h, ls). (h, map (\<lambda>l. l @ ''\<newline>'') ls)) rs) =
   map (\<lambda>l. l @ ''\<newline>'') (report_lines cmd rs)"
  by (simp add: report_body_terminated report_lines_def command_echo_def)

lemma report_lines_no_newline:
  assumes "CHR 0x0A \<notin> set cmd"
    and "\<And>h ls. (h, ls) \<in> set rs \<Longrightarrow> CHR 0x0A \<notin> set h"
    and "\<And>h ls l. (h, ls) \<in> set rs \<Longrightarrow> l \<in> set ls \<Longrightarrow> CHR 0x0A \<notin> set l"
    and "l \<in> set (report_lines cmd rs)"
  shows "CHR 0x0A \<notin> set l"
  using assms by (auto simp: report_lines_def)

lemma concat_report_body:
  "concat (report_body rs) =
   concat (map (\<lambda>(h, ls). output_header h @ concat ls @ ''\<newline>'')
               (filter (\<lambda>(h, ls). ls \<noteq> []) rs))"
  by (induction rs) (auto simp: report_body_Nil report_body_Cons)

lemma zip_map_terminated:
  "zip hosts (map (map (\<lambda>l. l @ ''\<newline>'')) plain) =
   map (\<lambda>(h, ls). (h, map (\<lambda>l. l @ ''\<newline>'') ls)) (zip hosts plain)"
  by (simp add: zip_map2)

lemma file_lines_written:
  assumes "CHR 0x0A \<notin> set cmd"
    and "\<forall>h\<in>set hosts. CHR 0x0A \<notin> set h"
    and "\<forall>ls\<in>set plain. \<forall>l\<in>set ls. CHR 0x0A \<notin> set l"
  shows "file_lines (concat (command_echo cmd #
            report_body (zip hosts (map (map (\<lambda>l. l @ ''\<newline>'')) plain)))) =
         report_lines cmd (zip hosts plain)"
proof -
  have free: "CHR 0x0A \<notin> set l" if "l \<in> set (report_lines cmd (zip hosts plain))" for l
  proof (rule report_lines_no_newline [OF assms(1) _ _ that])
    fix h ls assume "(h, ls) \<in> set (zip hosts plain)"
    then have "h \<in> set hosts" by (rule set_zip_leftD)
    then show "CHR 0x0A \<notin> set h" using assms(2) by blast
  next
    fix h ls l assume "(h, ls) \<in> set (zip hosts plain)" and "l \<in> set ls"
    then have "ls \<in> set plain" by (simp add: set_zip_rightD)
    then show "CHR 0x0A \<notin> set l" using assms(3) \<open>l \<in> set ls\<close> by blast
  qed
  have "command_echo cmd # report_body (zip hosts (map (map (\<lambda>l. l @ ''\<newline>'')) plain)) =
        map (\<lambda>l. l @ ''\<newline>'') (report_lines cmd (zip hosts plain))"
    unfolding zip_map_terminated by (rule written_terminated)
  then show ?thesis
    using file_lines_terminated [of "report_lines cmd (zip hosts plain)"] free by simp
qed

section \<open>Properties of send\_command\<close>

text \<open>
  What \<open>check_port\<close> answers: true exactly when \<^verbatim>\<open>connect_ex\<close> returned 0, false
  exactly when it returned another code, and its calls are the creation of the socket and
  \<^verbatim>\<open>connect_ex\<close>.
\<close>

lemma check_port_answer:
  "(fst (check_port host port w) = Inr True \<longleftrightarrow> tw_connect_ex w = Inr 0)
   \<and> (fst (check_port host port w) = Inr False \<longleftrightarrow>
        (\<exists>rc. rc \<noteq> 0 \<and> tw_connect_ex w = Inr rc))
   \<and> (fst (check_port host port w) = Inl e \<longleftrightarrow> tw_connect_ex w = Inl e)"
  by (auto simp: check_port_def split: sum.splits)

lemma check_port_events: "snd (check_port host port w) = [SocketOpen, SocketConnect host port]"
  by (simp add: check_port_def split: sum.splits)

lemma ssh_session_events_ssh: "list_all is_ssh_event (snd (ssh_session host creds cmd w))"
  by (simp add: ssh_session_def split: option.splits sum.splits)

lemma send_command_session:
  assumes "fst (check_port host 22 w) = Inr True"
  shows "send_command host creds cmd w =
     (case ssh_session host creds cmd w of
        (Inr output, evs) \<Rightarrow>
          (Inr output,
           [SocketOpen, SocketConnect host 22, SshClientNew, SshSetPolicy] @ evs @ [SshClose])
      | (Inl (SocketTimeout s), evs) \<Rightarrow>
          (Inr [],
           [SocketOpen, SocketConnect host 22, SshClientNew, SshSetPolicy] @ evs @
           [SshClose, Print (timeout_msg host)])
      | (Inl (OtherException s), evs) \<Rightarrow>
          (Inr [],
           [SocketOpen, SocketConnect host 22, SshClientNew, SshSetPolicy] @ evs @
           [SshClose, Print (unable_msg host (OtherException s))]))"
proof -
  have "check_port host 22 w = (Inr True, [SocketOpen, SocketConnect host 22])"
    using assms check_port_events [of host 22 w] by (metis prod.collapse)
  then show ?thesis
    by (simp add: send_command_def split: prod.splits sum.splits exn.splits)
qed

lemma ssh_session_missing_key:
  assumes "dict_get creds ''username'' = None \<or> dict_get creds ''password'' = None"
  shows "ssh_session host creds cmd w =
           (Inl (key_error (if dict_get creds ''username'' = None then ''username''
                            else ''password'')), [])"
  using assms by (auto simp: ssh_session_def split: option.splits)

lemma send_command_missing_key:
  assumes "dict_get creds ''username'' = None \<or> dict_get creds ''password'' = None"
    and "tw_connect_ex w = Inr 0"
  shows "send_command host creds cmd w =
           (Inr [], [SocketOpen, SocketConnect host 22, SshClientNew, SshSetPolicy, SshClose,
                     Print (unable_msg host
                              (key_error (if dict_get creds ''username'' = None then ''username''
                                          else ''password'')))])"
proof -
  have "fst (check_port host 22 w) = Inr True"
    using assms(2) by (simp add: check_port_def)
  from send_command_session [OF this, of creds cmd] show ?thesis
    by (simp add: ssh_session_missing_key [OF assms(1)] key_error_def)
qed

section \<open>Facts about the example inputs\<close>

lemma send_command_answers:
  "send_command host example_creds cmd (answers out) =
     (Inr out, [SocketOpen, SocketConnect host 22, SshClientNew, SshSetPolicy,
                SshConnect host ''root'' ''secret'', SshExec cmd, ReadStdout, SshClose])"
  by (simp add: send_command_def check_port_def ssh_session_def answers_def example_creds_def
        dict_get_def)


lemma example_hosts_abc:
  "map (str_strip (example_lib creds))
       (str_readlines (example_lib creds) ''A\<newline>B\<newline>C\<newline>'') = [''A'', ''B'', ''C'']"
  by (simp add: example_lib_def strip_ascii_def ascii_space_def)


lemma example_inventory:
  "example_files inventory (inventory_file example_args) = Some inventory"
  by (simp add: example_files_def example_args_def)

lemma example_credentials:
  "example_files inventory (credentials_file example_args) = Some ''{}''"
  by (simp add: example_files_def example_args_def)

lemma example_json: "json_load (example_lib creds) content = Inr creds"
  by (simp add: example_lib_def)

lemma example_hosts_middle:
  "map (str_strip (example_lib creds))
       (str_readlines (example_lib creds) ''A\<newline>no-such-host\<newline>C\<newline>'') =
     [''A'', ''no-such-host'', ''C'']"
  by (simp add: example_lib_def strip_ascii_def ascii_space_def)

lemma less_3_cases: "i < length [a, b, c] \<Longrightarrow> i = 0 \<or> i = 1 \<or> i = 2"
  by auto


text \<open>
  The separator is the string \<open>''\<newline>''\<close>. After output lines that end with their
  line terminator, as \<^verbatim>\<open>readlines\<close> returns them, it shows as an empty line of the
  file; after a last line without terminator it ends that line.
\<close>

lemma separator_after_terminated_line:
  "concat (report_body [(''A'', [''x\<newline>''])]) = ''Output from A:\<newline>x\<newline>\<newline>''"
  by (simp add: report_body_def output_header_def)

lemma separator_after_unterminated_line:
  "concat (report_body [(''A'', [''x''])]) = ''Output from A:\<newline>x\<newline>''"
  by (simp add: report_body_def output_header_def)

section \<open>The report (C1, C5, C7)\<close>

text \<open>
  Claim C1, as amended. When both files load and every call returns a list, then for every
  completion order of the calls the run ends normally and appends to the report file the
  line echoing the command and then, for each position of the host list in order whose
  result is not empty, the header line naming that host, the result's strings exactly as
  returned, one after the other, and one line feed. Positions with an empty result add
  nothing. When every output string is one line followed by its line feed (and neither a
  host nor the command contains a line feed), the lines of what the run wrote are the
  command echo and, per such host, the header, the output lines and one empty line.
\<close>

theorem report_text_in_submission_order:
  assumes "files (inventory_file a) = Some content"
    and "files (credentials_file a) = Some ccontent"
    and "json_load lib ccontent = Inr creds"
    and "hosts = map (str_strip lib) (str_readlines lib content)"
    and "schedule order (length hosts)"
    and "length results = length hosts"
    and "\<forall>i<length hosts.
           fst (send_command (hosts ! i) creds (command a) (worlds i)) = Inr (results ! i)"
  shows "run_status (main lib a files worlds order) = Exit 0
       \<and> run_written (main lib a files worlds order) =
           command_echo (command a) #
           concat (map (\<lambda>(h, ls). output_header h # ls @ [''\<newline>''])
                       (filter (\<lambda>(h, ls). ls \<noteq> []) (zip hosts results)))
       \<and> run_files (main lib a files worlds order) report_file =
           Some ((case files report_file of None \<Rightarrow> [] | Some old \<Rightarrow> old) @
                 command_echo (command a) @
                 concat (map (\<lambda>(h, ls). output_header h @ concat ls @ ''\<newline>'')
                             (filter (\<lambda>(h, ls). ls \<noteq> []) (zip hosts results))))
       \<and> (results = map (map (\<lambda>l. l @ ''\<newline>'')) plain
            \<and> (\<forall>ls\<in>set plain. \<forall>l\<in>set ls. CHR 0x0A \<notin> set l)
            \<and> (\<forall>h\<in>set hosts. CHR 0x0A \<notin> set h)
            \<and> CHR 0x0A \<notin> set (command a)
          \<longrightarrow> file_lines (concat (run_written (main lib a files worlds order))) =
                report_lines (command a) (zip hosts plain))"
proof -
  have res: "\<And>i. i < length hosts \<Longrightarrow>
               fst (send_command (hosts ! i) creds (command a) (worlds i)) = Inr (results ! i)"
    using assms(7) by blast
  have m: "main lib a files worlds order =
           \<lparr>run_status = Exit 0, run_printed = [],
            run_finished = run_pool worlds order (map (\<lambda>h. send_command h creds (command a)) hosts),
            run_written = command_echo (command a) # report_body (zip hosts results),
            run_files = append_file files report_file
                          (command_echo (command a) # report_body (zip hosts results))\<rparr>"
    by (rule main_written [OF assms(1-6) res])
  have 1: "run_status (main lib a files worlds order) = Exit 0"
    by (simp add: m)
  have 2: "run_written (main lib a files worlds order) =
           command_echo (command a) #
           concat (map (\<lambda>(h, ls). output_header h # ls @ [''\<newline>''])
                       (filter (\<lambda>(h, ls). ls \<noteq> []) (zip hosts results)))"
    by (simp add: m report_body_def)
  have 3: "run_files (main lib a files worlds order) report_file =
           Some ((case files report_file of None \<Rightarrow> [] | Some old \<Rightarrow> old) @
                 command_echo (command a) @
                 concat (map (\<lambda>(h, ls). output_header h @ concat ls @ ''\<newline>'')
                             (filter (\<lambda>(h, ls). ls \<noteq> []) (zip hosts results))))"
    by (simp add: m append_file_report concat_report_body)
  have 4: "file_lines (concat (run_written (main lib a files worlds order))) =
                report_lines (command a) (zip hosts plain)"
    if "results = map (map (\<lambda>l. l @ ''\<newline>'')) plain"
      and "\<forall>ls\<in>set plain. \<forall>l\<in>set ls. CHR 0x0A \<notin> set l"
      and "\<forall>h\<in>set hosts. CHR 0x0A \<notin> set h"
      and "CHR 0x0A \<notin> set (command a)"
  proof -
    have "run_written (main lib a files worlds order) =
            command_echo (command a) #
            report_body (zip hosts (map (map (\<lambda>l. l @ ''\<newline>'')) plain))"
      by (simp add: m that(1))
    then show ?thesis
      using file_lines_written [OF that(4) that(3) that(2)] by simp
  qed
  show ?thesis
    using 1 2 3 4 by blast
qed

theorem report_text_in_submission_order_witness:
  "run_files (main (example_lib example_creds) example_args
        (example_files ''A\<newline>B\<newline>C\<newline>'')
        (abc_worlds ''x\<newline>'' ''y\<newline>'' ''z\<newline>'') [2, 0, 1]) report_file =
      Some (''Command run: net-stats -l\<newline>'' @
            ''Output from A:\<newline>x\<newline>\<newline>'' @
            ''Output from C:\<newline>y\<newline>z\<newline>\<newline>'')
   \<and> file_lines (concat (run_written (main (example_lib example_creds) example_args
        (example_files ''A\<newline>B\<newline>C\<newline>'')
        (abc_worlds ''x\<newline>'' ''y\<newline>'' ''z\<newline>'') [2, 0, 1]))) =
      [''Command run: net-stats -l'',
       ''Output from A:'', ''x'', '''',
       ''Output from C:'', ''y'', ''z'', '''']"
proof -
  let ?hosts = "[''A'', ''B'', ''C'']"
  let ?results = "[[''x\<newline>''], [], [''y\<newline>'', ''z\<newline>'']]"
  let ?plain = "[[''x''], [], [''y'', ''z'']]"
  let ?worlds = "abc_worlds ''x\<newline>'' ''y\<newline>'' ''z\<newline>''"
  have h4: "?hosts = map (str_strip (example_lib example_creds))
                         (str_readlines (example_lib example_creds) ''A\<newline>B\<newline>C\<newline>'')"
    by (simp add: example_hosts_abc)
  have h5: "schedule [2, 0, 1] (length ?hosts)"
    by (auto simp: schedule_def)
  have h6: "length ?results = length ?hosts"
    by simp
  have h7: "\<forall>i<length ?hosts.
              fst (send_command (?hosts ! i) example_creds (command example_args) (?worlds i))
                = Inr (?results ! i)"
  proof (intro allI impI)
    fix i assume "i < length ?hosts"
    then have "i = 0 \<or> i = 1 \<or> i = 2" by (rule less_3_cases)
    then show "fst (send_command (?hosts ! i) example_creds (command example_args) (?worlds i))
                = Inr (?results ! i)"
      by (auto simp: abc_worlds_def send_command_answers)
  qed
  have c: "command example_args = ''net-stats -l''"
    by (simp add: example_args_def)
  have t: "?results = map (map (\<lambda>l. l @ ''\<newline>'')) ?plain
            \<and> (\<forall>ls\<in>set ?plain. \<forall>l\<in>set ls. CHR 0x0A \<notin> set l)
            \<and> (\<forall>h\<in>set ?hosts. CHR 0x0A \<notin> set h)
            \<and> CHR 0x0A \<notin> set (command example_args)"
    by (simp add: c)
  have b: "(case example_files ''A\<newline>B\<newline>C\<newline>'' report_file of None \<Rightarrow> [] | Some old \<Rightarrow> old) = []"
    by (simp add: example_files_def report_file_def)
  from report_text_in_submission_order [where plain = "?plain", OF example_inventory
      example_credentials example_json h4 h5 h6 h7]
  have f: "run_files (main (example_lib example_creds) example_args
        (example_files ''A\<newline>B\<newline>C\<newline>'') ?worlds [2, 0, 1]) report_file =
           Some ((case example_files ''A\<newline>B\<newline>C\<newline>'' report_file of None \<Rightarrow> [] | Some old \<Rightarrow> old) @
                 command_echo (command example_args) @
                 concat (map (\<lambda>(h, ls). output_header h @ concat ls @ ''\<newline>'')
                             (filter (\<lambda>(h, ls). ls \<noteq> []) (zip ?hosts ?results))))"
    and l: "file_lines (concat (run_written (main (example_lib example_creds) example_args
        (example_files ''A\<newline>B\<newline>C\<newline>'') ?worlds [2, 0, 1]))) =
          report_lines (command example_args) (zip ?hosts ?plain)"
    using t by blast+
  have f': "run_files (main (example_lib example_creds) example_args
        (example_files ''A\<newline>B\<newline>C\<newline>'') ?worlds [2, 0, 1]) report_file =
      Some (''Command run: net-stats -l\<newline>'' @
            ''Output from A:\<newline>x\<newline>\<newline>'' @
            ''Output from C:\<newline>y\<newline>z\<newline>\<newline>'')"
    unfolding f b c by (simp add: command_echo_def output_header_def)
  have l': "file_lines (concat (run_written (main (example_lib example_creds) example_args
        (example_files ''A\<newline>B\<newline>C\<newline>'') ?worlds [2, 0, 1]))) =
      [''Command run: net-stats -l'',
       ''Output from A:'', ''x'', '''',
       ''Output from C:'', ''y'', ''z'', '''']"
    unfolding l c by (simp add: report_lines_def)
  show ?thesis
    using f' l' by (rule conjI)
qed

text \<open>
  The claim as stated, at its own example: with the results \<open>[''x'']\<close>, \<open>[]\<close> and
  \<open>[''y'', ''z'']\<close>, whose strings carry no line feed, the report has no empty line and
  \<open>y\<close> and \<open>z\<close> share a line.
\<close>

theorem unterminated_lines_counterexample:
  "file_lines (concat (run_written (main (example_lib example_creds) example_args
        (example_files ''A\<newline>B\<newline>C\<newline>'') (abc_worlds ''x'' ''y'' ''z'') [2, 0, 1]))) =
      [''Command run: net-stats -l'', ''Output from A:'', ''x'', ''Output from C:'', ''yz'']
   \<and> file_lines (concat (run_written (main (example_lib example_creds) example_args
        (example_files ''A\<newline>B\<newline>C\<newline>'') (abc_worlds ''x'' ''y'' ''z'') [2, 0, 1]))) \<noteq>
      report_lines ''net-stats -l''
        [(''A'', [''x'']), (''B'', []), (''C'', [''y'', ''z''])]
   \<and> report_lines ''net-stats -l''
        [(''A'', [''x'']), (''B'', []), (''C'', [''y'', ''z''])] =
      [''Command run: net-stats -l'',
       ''Output from A:'', ''x'', '''',
       ''Output from C:'', ''y'', ''z'', '''']"
  by code_simp



text \<open>
  Claim C7. Two runs one after the other, with the same arguments, the same files (none of
  them the report itself) and the same answers of the network: after the first run the
  report holds what it held before followed by what the run wrote; after the second run it
  holds that followed by the same strings once more. Each run's part starts with the
  command echo.
\<close>

theorem report_file_is_append_only:
  assumes "inventory_file a \<noteq> report_file"
    and "credentials_file a \<noteq> report_file"
    and "files (inventory_file a) = Some content"
    and "files (credentials_file a) = Some ccontent"
    and "json_load lib ccontent = Inr creds"
    and "hosts = map (str_strip lib) (str_readlines lib content)"
    and "schedule order1 (length hosts)"
    and "schedule order2 (length hosts)"
    and "r1 = main lib a files worlds order1"
    and "r2 = main lib a (run_files r1) worlds order2"
    and "before = (case files report_file of None \<Rightarrow> [] | Some old \<Rightarrow> old)"
  shows "run_files r1 report_file = Some (before @ concat (run_written r1))
       \<and> run_files r2 report_file = Some (before @ concat (run_written r1) @ concat (run_written r1))
       \<and> run_written r2 = run_written r1
       \<and> (\<exists>rest. run_written r1 = command_echo (command a) # rest)"
proof -
  let ?pool = "map (\<lambda>h. send_command h creds (command a)) hosts"
  let ?futures = "zip [0..<length hosts] hosts"
  let ?todo = "[0..<length hosts]"
  let ?fin1 = "run_pool worlds order1 ?pool"
  let ?fin2 = "run_pool worlds order2 ?pool"
  obtain st written where
    w1: "write_results ?fin1 ?futures ?todo [command_echo (command a)] = (st, written)"
    by (cases "write_results ?fin1 ?futures ?todo [command_echo (command a)]")
  have "write_results ?fin2 ?futures ?todo [command_echo (command a)] =
        write_results ?fin1 ?futures ?todo [command_echo (command a)]"
    by (rule write_results_cong)
       (simp add: future_result_main [OF assms(7)] future_result_main [OF assms(8)])
  then have w2: "write_results ?fin2 ?futures ?todo [command_echo (command a)] = (st, written)"
    using w1 by simp
  have m1: "r1 = \<lparr>run_status = st, run_printed = [], run_finished = ?fin1,
                  run_written = written,
                  run_files = append_file files report_file written\<rparr>"
    unfolding assms(9) by (rule main_dispatch [OF assms(3,4,5,6) refl w1])
  let ?files1 = "append_file files report_file written"
  have f1: "run_files r1 = ?files1"
    by (simp add: m1)
  have i1: "?files1 (inventory_file a) = Some content"
    using assms(1,3) by (simp add: append_file_other)
  have c1: "?files1 (credentials_file a) = Some ccontent"
    using assms(2,4) by (simp add: append_file_other)
  have m2: "r2 = \<lparr>run_status = st, run_printed = [], run_finished = ?fin2,
                  run_written = written,
                  run_files = append_file ?files1 report_file written\<rparr>"
    unfolding assms(10) f1 by (rule main_dispatch [OF i1 c1 assms(5,6) refl w2])
  have e: "\<exists>rest. written = command_echo (command a) # rest"
    using write_results_extends [of ?fin1 ?futures ?todo "[command_echo (command a)]"] w1 by simp
  show ?thesis
    using e by (simp add: m1 m2 assms(11) append_file_report)
qed

theorem report_file_is_append_only_witness:
  "run_files (main (example_lib example_creds) example_args
       (example_files ''A\<newline>B\<newline>C\<newline>'')
       (abc_worlds ''x\<newline>'' ''y\<newline>'' ''z\<newline>'') [2, 0, 1]) report_file =
     Some (''Command run: net-stats -l\<newline>'' @
           ''Output from A:\<newline>x\<newline>\<newline>Output from C:\<newline>y\<newline>z\<newline>\<newline>'')
   \<and> run_files (main (example_lib example_creds) example_args
       (run_files (main (example_lib example_creds) example_args
          (example_files ''A\<newline>B\<newline>C\<newline>'')
          (abc_worlds ''x\<newline>'' ''y\<newline>'' ''z\<newline>'') [2, 0, 1]))
       (abc_worlds ''x\<newline>'' ''y\<newline>'' ''z\<newline>'') [0, 1, 2]) report_file =
     Some (''Command run: net-stats -l\<newline>'' @
           ''Output from A:\<newline>x\<newline>\<newline>Output from C:\<newline>y\<newline>z\<newline>\<newline>'' @
           ''Command run: net-stats -l\<newline>'' @
           ''Output from A:\<newline>x\<newline>\<newline>Output from C:\<newline>y\<newline>z\<newline>\<newline>'')"
proof -
  let ?hosts = "[''A'', ''B'', ''C'']"
  let ?results = "[[''x\<newline>''], [], [''y\<newline>'', ''z\<newline>'']]"
  let ?files = "example_files ''A\<newline>B\<newline>C\<newline>''"
  let ?worlds = "abc_worlds ''x\<newline>'' ''y\<newline>'' ''z\<newline>''"
  let ?r1 = "main (example_lib example_creds) example_args ?files ?worlds [2, 0, 1]"
  have n1: "inventory_file example_args \<noteq> report_file"
    and n2: "credentials_file example_args \<noteq> report_file"
    by (simp_all add: example_args_def report_file_def)
  have h4: "?hosts = map (str_strip (example_lib example_creds))
                         (str_readlines (example_lib example_creds) ''A\<newline>B\<newline>C\<newline>'')"
    by (simp add: example_hosts_abc)
  have o1: "schedule [2, 0, 1] (length ?hosts)" and o2: "schedule [0, 1, 2] (length ?hosts)"
    by (auto simp: schedule_def)
  have len: "length ?results = length ?hosts"
    by simp
  have res: "fst (send_command (?hosts ! i) example_creds (command example_args) (?worlds i))
               = Inr (?results ! i)" if "i < length ?hosts" for i
  proof -
    from that have "i = 0 \<or> i = 1 \<or> i = 2" by (rule less_3_cases)
    then show ?thesis
      by (auto simp: abc_worlds_def send_command_answers)
  qed
  have w1: "run_written ?r1 =
              [''Command run: net-stats -l\<newline>'', ''Output from A:\<newline>'', ''x\<newline>'', ''\<newline>'',
               ''Output from C:\<newline>'', ''y\<newline>'', ''z\<newline>'', ''\<newline>'']"
  proof -
    have c: "command example_args = ''net-stats -l''"
      by (simp add: example_args_def)
    have "run_written ?r1 =
            run_written
              \<lparr>run_status = Exit 0, run_printed = [],
               run_finished = run_pool ?worlds [2, 0, 1]
                 (map (\<lambda>h. send_command h example_creds (command example_args)) ?hosts),
               run_written = command_echo (command example_args) # report_body (zip ?hosts ?results),
               run_files = append_file ?files report_file
                 (command_echo (command example_args) # report_body (zip ?hosts ?results))\<rparr>"
      by (rule arg_cong [OF main_written [OF example_inventory example_credentials example_json
            h4 o1 len res]])
    also have "\<dots> = [''Command run: net-stats -l\<newline>'', ''Output from A:\<newline>'', ''x\<newline>'', ''\<newline>'',
               ''Output from C:\<newline>'', ''y\<newline>'', ''z\<newline>'', ''\<newline>'']"
      by (simp add: c report_body_def command_echo_def output_header_def)
    finally show ?thesis .
  qed
  have b: "(case ?files report_file of None \<Rightarrow> [] | Some old \<Rightarrow> old) = []"
    by (simp add: example_files_def report_file_def)
  from report_file_is_append_only [where worlds = "?worlds", OF n1 n2 example_inventory
      example_credentials example_json h4 o1 o2 refl refl refl]
  show ?thesis
    unfolding w1 b by simp
qed

section \<open>Failures of one host (C2, C3, C9, C10)\<close>

text \<open>
  A probe that answers false. On a host where \<open>check_port\<close> returns false,
  \<open>send_command\<close> prints the diagnostic naming the host and returns the empty list, and
  its only library calls are the two of the probe: no SSH client is created, and
  \<^verbatim>\<open>ssh.connect\<close> is never called.
\<close>

lemma closed_port_skips_ssh:
  assumes "fst (check_port host 22 w) = Inr False"
  shows "send_command host creds cmd w =
           (Inr [], [SocketOpen, SocketConnect host 22, Print (port_closed_msg host)])
         \<and> \<not> list_ex is_ssh_event (snd (send_command host creds cmd w))
         \<and> port_closed_msg host = ''The ESXi host '' @ host @ '' is not listening on port 22.''"
proof -
  have "check_port host 22 w = (Inr False, [SocketOpen, SocketConnect host 22])"
    using assms check_port_events [of host 22 w] by (metis prod.collapse)
  then have "send_command host creds cmd w =
           (Inr [], [SocketOpen, SocketConnect host 22, Print (port_closed_msg host)])"
    by (simp add: send_command_def)
  then show ?thesis
    by (simp add: port_closed_msg_def)
qed

lemma closed_port_example:
  "send_command ''10.0.0.7'' example_creds ''net-stats -l'' refuses =
     (Inr [], [SocketOpen, SocketConnect ''10.0.0.7'' 22,
               Print ''The ESXi host 10.0.0.7 is not listening on port 22.''])"
proof -
  have h: "fst (check_port ''10.0.0.7'' 22 refuses) = Inr False"
    by (simp add: check_port_def refuses_def)
  from closed_port_skips_ssh [OF h, of example_creds "''net-stats -l''"] show ?thesis
    by simp
qed

text \<open>
  Failures inside the \<^verbatim>\<open>try\<close>. When the port is open and an exception \<open>e\<close> leaves the body of
  \<^verbatim>\<open>with ssh:\<close>, \<open>send_command\<close> returns the empty list (no exception leaves it),
  the client is closed, and one diagnostic is printed: for a \<^verbatim>\<open>socket.timeout\<close> the
  time-out message, which differs from the closed-port message of every host, and for any
  other exception the message that ends with the text of \<open>e\<close>.
\<close>

lemma session_failures_are_local:
  assumes "fst (check_port host 22 w) = Inr True"
    and "fst (ssh_session host creds cmd w) = Inl e"
  shows "fst (send_command host creds cmd w) = Inr []
       \<and> snd (send_command host creds cmd w) =
           [SocketOpen, SocketConnect host 22, SshClientNew, SshSetPolicy]
           @ snd (ssh_session host creds cmd w)
           @ [SshClose,
              Print (case e of SocketTimeout s \<Rightarrow> timeout_msg host
                     | OtherException s \<Rightarrow> unable_msg host e)]
       \<and> (\<forall>h. timeout_msg host \<noteq> port_closed_msg h)
       \<and> unable_msg host e =
           ''Unable to connect to '' @ host @
           '' with provided credentials. The host may have non-standard credentials. Error: ''
           @ exn_text e"
proof -
  obtain evs where s: "ssh_session host creds cmd w = (Inl e, evs)"
    using assms(2) by (metis prod.collapse)
  have 1: "fst (send_command host creds cmd w) = Inr []"
    by (cases e) (simp_all add: send_command_session [OF assms(1)] s)
  have 2: "snd (send_command host creds cmd w) =
           [SocketOpen, SocketConnect host 22, SshClientNew, SshSetPolicy]
           @ snd (ssh_session host creds cmd w)
           @ [SshClose,
              Print (case e of SocketTimeout s \<Rightarrow> timeout_msg host
                     | OtherException s \<Rightarrow> unable_msg host e)]"
    by (cases e) (simp_all add: send_command_session [OF assms(1)] s)
  have 3: "\<forall>h. timeout_msg host \<noteq> port_closed_msg h"
    by (simp add: timeout_msg_def port_closed_msg_def)
  show ?thesis
    using 1 2 3 by (simp add: unable_msg_def)
qed

lemma session_failures_example:
  "send_command ''esx1'' example_creds ''net-stats -l'' times_out =
     (Inr [], [SocketOpen, SocketConnect ''esx1'' 22, SshClientNew, SshSetPolicy,
               SshConnect ''esx1'' ''root'' ''secret'', SshClose,
               Print ''Socket timeout when trying to connect to esx1.''])
   \<and> send_command ''esx1'' example_creds ''net-stats -l'' rejects =
     (Inr [], [SocketOpen, SocketConnect ''esx1'' 22, SshClientNew, SshSetPolicy,
               SshConnect ''esx1'' ''root'' ''secret'', SshClose,
               Print (''Unable to connect to esx1 with provided credentials. '' @
                      ''The host may have non-standard credentials. Error: Authentication failed.'')])"
proof -
  have p1: "fst (check_port ''esx1'' 22 times_out) = Inr True"
    by (simp add: check_port_def times_out_def)
  have s1: "ssh_session ''esx1'' example_creds ''net-stats -l'' times_out =
              (Inl (SocketTimeout ''timed out''), [SshConnect ''esx1'' ''root'' ''secret''])"
    by (simp add: ssh_session_def times_out_def example_creds_def dict_get_def)
  have p2: "fst (check_port ''esx1'' 22 rejects) = Inr True"
    by (simp add: check_port_def rejects_def)
  have s2: "ssh_session ''esx1'' example_creds ''net-stats -l'' rejects =
              (Inl (OtherException ''Authentication failed.''),
               [SshConnect ''esx1'' ''root'' ''secret''])"
    by (simp add: ssh_session_def rejects_def example_creds_def dict_get_def)
  have f1: "fst (ssh_session ''esx1'' example_creds ''net-stats -l'' times_out) =
              Inl (SocketTimeout ''timed out'')"
    by (simp add: s1)
  have f2: "fst (ssh_session ''esx1'' example_creds ''net-stats -l'' rejects) =
              Inl (OtherException ''Authentication failed.'')"
    by (simp add: s2)
  have a: "send_command ''esx1'' example_creds ''net-stats -l'' times_out =
     (Inr [], [SocketOpen, SocketConnect ''esx1'' 22, SshClientNew, SshSetPolicy,
               SshConnect ''esx1'' ''root'' ''secret'', SshClose,
               Print ''Socket timeout when trying to connect to esx1.''])"
    using session_failures_are_local [OF p1 f1]
    by (simp add: s1 timeout_msg_def prod_eq_iff)
  have b: "send_command ''esx1'' example_creds ''net-stats -l'' rejects =
     (Inr [], [SocketOpen, SocketConnect ''esx1'' 22, SshClientNew, SshSetPolicy,
               SshConnect ''esx1'' ''root'' ''secret'', SshClose,
               Print (''Unable to connect to esx1 with provided credentials. '' @
                      ''The host may have non-standard credentials. Error: Authentication failed.'')])"
    using session_failures_are_local [OF p2 f2]
    by (simp add: s2 unable_msg_def prod_eq_iff)
  show ?thesis using a b by simp
qed

text \<open>
  Claim C2. A probe that fails by raising: on a host whose name does not resolve,
  \<^verbatim>\<open>connect_ex\<close> raises inside \<open>check_port\<close>, which \<open>send_command\<close> calls outside
  its \<^verbatim>\<open>try\<close>. The exception leaves \<open>send_command\<close>: no diagnostic is printed and no
  list is returned.
\<close>

theorem probe_exception_leaves_send_command:
  "send_command ''no-such-host'' example_creds ''net-stats -l'' unresolvable =
     (Inl (OtherException ''[Errno -2] Name or service not known''),
      [SocketOpen, SocketConnect ''no-such-host'' 22])"
  by (simp add: send_command_def check_port_def unresolvable_def)

text \<open>
  Claim C3. The same failure in a batch of three hosts, the second of which does not
  resolve: \<^verbatim>\<open>future.result()\<close> raises the exception again in \<open>main\<close>, which ends
  with it after writing the block of the first host. The call of the third host returned
  its output, and that output is never written.
\<close>

theorem probe_exception_ends_the_batch:
  "run_status (main (example_lib example_creds) example_args
       (example_files ''A\<newline>no-such-host\<newline>C\<newline>'') middle_unresolvable [0, 1, 2]) =
     Uncaught (OtherException ''[Errno -2] Name or service not known'')
   \<and> run_written (main (example_lib example_creds) example_args
       (example_files ''A\<newline>no-such-host\<newline>C\<newline>'') middle_unresolvable [0, 1, 2]) =
     [''Command run: net-stats -l\<newline>'', ''Output from A:\<newline>'', ''x\<newline>'', ''\<newline>'']
   \<and> future_result (run_finished (main (example_lib example_creds) example_args
       (example_files ''A\<newline>no-such-host\<newline>C\<newline>'') middle_unresolvable [0, 1, 2])) 2 =
     Some (Inr [''y\<newline>''])"
  by code_simp

text \<open>
  Claim C9. On a successful execution \<open>send_command\<close> returns exactly the lines read
  from standard output, the only stream it reads; replacing what the command wrote to
  standard error by anything else changes neither the result nor the events.
\<close>

theorem result_is_stdout_only:
  assumes "fst (check_port host 22 w) = Inr True"
    and "dict_get creds ''username'' = Some u"
    and "dict_get creds ''password'' = Some p"
    and "tw_ssh_connect w = None"
    and "tw_exec w = Inr ch"
    and "ch_stdout ch = Inr out"
  shows "send_command host creds cmd w =
           (Inr out, [SocketOpen, SocketConnect host 22, SshClientNew, SshSetPolicy,
                      SshConnect host u p, SshExec cmd, ReadStdout, SshClose])
       \<and> (\<forall>err. send_command host creds cmd (w\<lparr>tw_exec := Inr (ch\<lparr>ch_stderr := err\<rparr>)\<rparr>) =
                  send_command host creds cmd w)"
proof -
  have s: "ssh_session host creds cmd w' =
             (Inr out, [SshConnect host u p, SshExec cmd, ReadStdout])"
    if "tw_ssh_connect w' = None" and "tw_exec w' = Inr ch'" and "ch_stdout ch' = Inr out"
    for w' ch'
    using that assms(2,3) by (simp add: ssh_session_def)
  have r: "send_command host creds cmd w' =
           (Inr out, [SocketOpen, SocketConnect host 22, SshClientNew, SshSetPolicy,
                      SshConnect host u p, SshExec cmd, ReadStdout, SshClose])"
    if "fst (check_port host 22 w') = Inr True"
      and "tw_ssh_connect w' = None" and "tw_exec w' = Inr ch'" and "ch_stdout ch' = Inr out"
    for w' ch'
    using send_command_session [OF that(1), of creds cmd] s [OF that(2,3,4)] by simp
  have 1: "send_command host creds cmd w =
           (Inr out, [SocketOpen, SocketConnect host 22, SshClientNew, SshSetPolicy,
                      SshConnect host u p, SshExec cmd, ReadStdout, SshClose])"
    using r [OF assms(1) assms(4) assms(5) assms(6)] .
  have 2: "send_command host creds cmd (w\<lparr>tw_exec := Inr (ch\<lparr>ch_stderr := err\<rparr>)\<rparr>) =
           (Inr out, [SocketOpen, SocketConnect host 22, SshClientNew, SshSetPolicy,
                      SshConnect host u p, SshExec cmd, ReadStdout, SshClose])" for err
  proof (rule r)
    show "fst (check_port host 22 (w\<lparr>tw_exec := Inr (ch\<lparr>ch_stderr := err\<rparr>)\<rparr>)) = Inr True"
      using assms(1) by (simp add: check_port_def)
    show "tw_ssh_connect (w\<lparr>tw_exec := Inr (ch\<lparr>ch_stderr := err\<rparr>)\<rparr>) = None"
      using assms(4) by simp
    show "tw_exec (w\<lparr>tw_exec := Inr (ch\<lparr>ch_stderr := err\<rparr>)\<rparr>) = Inr (ch\<lparr>ch_stderr := err\<rparr>)"
      by simp
    show "ch_stdout (ch\<lparr>ch_stderr := err\<rparr>) = Inr out"
      using assms(6) by simp
  qed
  show ?thesis using 1 2 by simp
qed

theorem result_is_stdout_only_witness:
  "send_command ''esx1'' example_creds ''net-stats -l''
     (answers_with_stderr [''vmnic0\<newline>''] [''warning: deprecated\<newline>'']) =
     (Inr [''vmnic0\<newline>''],
      [SocketOpen, SocketConnect ''esx1'' 22, SshClientNew, SshSetPolicy,
       SshConnect ''esx1'' ''root'' ''secret'', SshExec ''net-stats -l'', ReadStdout, SshClose])
   \<and> send_command ''esx1'' example_creds ''net-stats -l''
        (answers_with_stderr [''vmnic0\<newline>''] [''another message\<newline>'']) =
      send_command ''esx1'' example_creds ''net-stats -l''
        (answers_with_stderr [''vmnic0\<newline>''] [''warning: deprecated\<newline>''])"
proof -
  let ?w = "answers_with_stderr [''vmnic0\<newline>''] [''warning: deprecated\<newline>'']"
  let ?ch = "\<lparr>ch_stdout = Inr [''vmnic0\<newline>''], ch_stderr = [''warning: deprecated\<newline>'']\<rparr>"
  have h1: "fst (check_port ''esx1'' 22 ?w) = Inr True"
    by (simp add: check_port_def answers_with_stderr_def)
  have h2: "dict_get example_creds ''username'' = Some ''root''"
    by (simp add: dict_get_def example_creds_def)
  have h3: "dict_get example_creds ''password'' = Some ''secret''"
    by (simp add: dict_get_def example_creds_def)
  have h4: "tw_ssh_connect ?w = None"
    by (simp add: answers_with_stderr_def)
  have h5: "tw_exec ?w = Inr ?ch"
    by (simp add: answers_with_stderr_def)
  have h6: "ch_stdout ?ch = Inr [''vmnic0\<newline>'']"
    by simp
  have w': "answers_with_stderr [''vmnic0\<newline>''] [''another message\<newline>''] =
            ?w\<lparr>tw_exec := Inr (?ch\<lparr>ch_stderr := [''another message\<newline>'']\<rparr>)\<rparr>"
    by (simp add: answers_with_stderr_def)
  from result_is_stdout_only [OF h1 h2 h3 h4 h5 h6, of "''net-stats -l''"] show ?thesis
    unfolding w' by blast
qed

text \<open>
  Claim C10. When the credentials dictionary lacks \<^verbatim>\<open>username\<close> or
  \<^verbatim>\<open>password\<close> (and every probe returns), the run ends normally: on every host
  whose port is open the \<^verbatim>\<open>KeyError\<close> is caught inside \<open>send_command\<close>, before
  \<^verbatim>\<open>ssh.connect\<close> is called, the message naming the host is printed and the result
  is empty; every call of the batch runs, and the report holds the command echo only.
\<close>

theorem missing_credential_key_is_local:
  assumes "files (inventory_file a) = Some content"
    and "files (credentials_file a) = Some ccontent"
    and "json_load lib ccontent = Inr creds"
    and "hosts = map (str_strip lib) (str_readlines lib content)"
    and "schedule order (length hosts)"
    and "dict_get creds ''username'' = None \<or> dict_get creds ''password'' = None"
    and "\<forall>i<length hosts. \<exists>rc. tw_connect_ex (worlds i) = Inr rc"
  shows "run_status (main lib a files worlds order) = Exit 0
       \<and> run_written (main lib a files worlds order) = [command_echo (command a)]
       \<and> run_finished (main lib a files worlds order) =
           map (\<lambda>fut. (fut, send_command (hosts ! fut) creds (command a) (worlds fut))) order
       \<and> (\<forall>i<length hosts. tw_connect_ex (worlds i) = Inr 0 \<longrightarrow>
            send_command (hosts ! i) creds (command a) (worlds i) =
              (Inr [], [SocketOpen, SocketConnect (hosts ! i) 22, SshClientNew, SshSetPolicy,
                        SshClose,
                        Print (unable_msg (hosts ! i)
                                 (key_error (if dict_get creds ''username'' = None
                                             then ''username'' else ''password'')))]))"
proof -
  let ?results = "replicate (length hosts) ([] :: line list)"
  have res: "fst (send_command (hosts ! i) creds (command a) (worlds i)) = Inr (?results ! i)"
    if lt: "i < length hosts" for i
  proof -
    obtain rc where rc: "tw_connect_ex (worlds i) = Inr rc"
      using assms(7) lt by blast
    show ?thesis
    proof (cases "rc = 0")
      case True
      with rc lt show ?thesis
        by (simp add: send_command_missing_key [OF assms(6)])
    next
      case False
      with rc have "fst (check_port (hosts ! i) 22 (worlds i)) = Inr False"
        by (simp add: check_port_def)
      then have "send_command (hosts ! i) creds (command a) (worlds i) =
           (Inr [], [SocketOpen, SocketConnect (hosts ! i) 22, Print (port_closed_msg (hosts ! i))])"
        by (simp add: send_command_def check_port_def rc False)
      with lt show ?thesis by simp
    qed
  qed
  have len: "length ?results = length hosts"
    by simp
  have m: "main lib a files worlds order =
           \<lparr>run_status = Exit 0, run_printed = [],
            run_finished = run_pool worlds order (map (\<lambda>h. send_command h creds (command a)) hosts),
            run_written = command_echo (command a) # report_body (zip hosts ?results),
            run_files = append_file files report_file
                          (command_echo (command a) # report_body (zip hosts ?results))\<rparr>"
    by (rule main_written [OF assms(1-5) len res])
  have b: "report_body (zip hosts ?results) = []"
    by (rule report_body_all_empty) (auto simp: set_zip)
  show ?thesis
    by (simp add: m b run_pool_schedule [OF assms(5)] send_command_missing_key [OF assms(6)])
qed

theorem missing_credential_key_is_local_witness:
  "run_status (main (example_lib [(''username'', ''root'')]) example_args
        (example_files ''A\<newline>B\<newline>C\<newline>'') (abc_worlds ''x'' ''y'' ''z'') [2, 0, 1]) = Exit 0
   \<and> run_written (main (example_lib [(''username'', ''root'')]) example_args
        (example_files ''A\<newline>B\<newline>C\<newline>'') (abc_worlds ''x'' ''y'' ''z'') [2, 0, 1]) =
      [''Command run: net-stats -l\<newline>'']
   \<and> send_command ''A'' [(''username'', ''root'')] ''net-stats -l'' (abc_worlds ''x'' ''y'' ''z'' 0) =
      (Inr [], [SocketOpen, SocketConnect ''A'' 22, SshClientNew, SshSetPolicy, SshClose,
                Print (''Unable to connect to A with provided credentials. '' @
                       ''The host may have non-standard credentials. Error: '' @
                       [CHR 0x27] @ ''password'' @ [CHR 0x27])])"
proof -
  let ?creds = "[(''username'', ''root'')] :: credentials"
  let ?hosts = "[''A'', ''B'', ''C'']"
  have h4: "?hosts = map (str_strip (example_lib ?creds))
                         (str_readlines (example_lib ?creds) ''A\<newline>B\<newline>C\<newline>'')"
    by (simp add: example_hosts_abc)
  have h5: "schedule [2, 0, 1] (length ?hosts)"
    by (auto simp: schedule_def)
  have h6: "dict_get ?creds ''username'' = None \<or> dict_get ?creds ''password'' = None"
    by (simp add: dict_get_def)
  have h7: "\<forall>i<length ?hosts. \<exists>rc. tw_connect_ex (abc_worlds ''x'' ''y'' ''z'' i) = Inr rc"
    by (simp add: abc_worlds_def answers_def)
  have c: "command example_args = ''net-stats -l''"
    by (simp add: example_args_def)
  have p: "tw_connect_ex (abc_worlds ''x'' ''y'' ''z'' 0) = Inr 0"
    by (simp add: abc_worlds_def answers_def)
  have u: "dict_get ?creds ''username'' = Some ''root''"
    by (simp add: dict_get_def)
  from missing_credential_key_is_local [OF example_inventory example_credentials
      example_json h4 h5 h6 h7]
  have t: "run_status (main (example_lib ?creds) example_args
        (example_files ''A\<newline>B\<newline>C\<newline>'') (abc_worlds ''x'' ''y'' ''z'') [2, 0, 1]) = Exit 0"
    and w: "run_written (main (example_lib ?creds) example_args
        (example_files ''A\<newline>B\<newline>C\<newline>'') (abc_worlds ''x'' ''y'' ''z'') [2, 0, 1]) =
          [command_echo (command example_args)]"
    and s: "\<forall>i<length ?hosts. tw_connect_ex (abc_worlds ''x'' ''y'' ''z'' i) = Inr 0 \<longrightarrow>
            send_command (?hosts ! i) ?creds (command example_args) (abc_worlds ''x'' ''y'' ''z'' i) =
              (Inr [], [SocketOpen, SocketConnect (?hosts ! i) 22, SshClientNew, SshSetPolicy,
                        SshClose,
                        Print (unable_msg (?hosts ! i)
                                 (key_error (if dict_get ?creds ''username'' = None
                                             then ''username'' else ''password'')))])"
    by blast+
  have s0: "send_command ''A'' ?creds ''net-stats -l'' (abc_worlds ''x'' ''y'' ''z'' 0) =
      (Inr [], [SocketOpen, SocketConnect ''A'' 22, SshClientNew, SshSetPolicy, SshClose,
                Print (unable_msg ''A'' (key_error ''password''))])"
    using s [rule_format, of 0] p by (simp add: c u)
  show ?thesis
    using t w s0 by (simp add: c command_echo_def unable_msg_def key_error_def)
qed

section \<open>Missing files (C4)\<close>

text \<open>
  Claim C4. When the inventory file or the credentials file does not exist, \<open>main\<close>
  prints that the file does not exist and ends with \<^verbatim>\<open>sys.exit(1)\<close>: nothing was
  submitted to the pool, so no call of \<open>send_command\<close> (hence no probe and no SSH
  connection) ran, nothing was written and no file changed.
\<close>

theorem missing_file_exits_before_dispatch:
  assumes "files (inventory_file a) = None \<or> files (credentials_file a) = None"
  shows "run_status (main lib a files worlds order) = Exit 1
       \<and> run_finished (main lib a files worlds order) = []
       \<and> run_written (main lib a files worlds order) = []
       \<and> run_files (main lib a files worlds order) = files
       \<and> run_printed (main lib a files worlds order) =
           [file_missing_msg (if files (inventory_file a) = None then inventory_file a
                              else credentials_file a)]"
proof (cases "files (inventory_file a)")
  case None
  then show ?thesis by (simp add: main_def)
next
  case (Some content)
  with assms have "files (credentials_file a) = None" by simp
  with Some show ?thesis by (simp add: main_def load_credentials_def)
qed

theorem missing_file_exits_before_dispatch_witness:
  "run_status (main (example_lib example_creds) example_args
       [''hosts.txt'' \<mapsto> ''A\<newline>''] (\<lambda>fut. answers [''x\<newline>'']) [0]) = Exit 1
   \<and> run_finished (main (example_lib example_creds) example_args
       [''hosts.txt'' \<mapsto> ''A\<newline>''] (\<lambda>fut. answers [''x\<newline>'']) [0]) = []
   \<and> run_status (main (example_lib example_creds) example_args
       [''credentials.json'' \<mapsto> ''{}''] (\<lambda>fut. answers [''x\<newline>'']) [0]) = Exit 1
   \<and> run_finished (main (example_lib example_creds) example_args
       [''credentials.json'' \<mapsto> ''{}''] (\<lambda>fut. answers [''x\<newline>'']) [0]) = []"
proof -
  have h1: "[''hosts.txt'' \<mapsto> ''A\<newline>''] (inventory_file example_args) = None
            \<or> [''hosts.txt'' \<mapsto> ''A\<newline>''] (credentials_file example_args) = None"
    by (simp add: example_args_def)
  have h2: "[''credentials.json'' \<mapsto> ''{}''] (inventory_file example_args) = None
            \<or> [''credentials.json'' \<mapsto> ''{}''] (credentials_file example_args) = None"
    by (simp add: example_args_def)
  from missing_file_exits_before_dispatch [OF h1] missing_file_exits_before_dispatch [OF h2]
  show ?thesis by blast
qed

end
